theory Spec2Isabelle
  imports Complex_Main "HOL-Library.Word"
begin

unbundle bit_operations_syntax

section \<open>Machine types and register constants (ds3231.h)\<close>

text \<open>
  \<open>uint8_t\<close> is \<open>8 word\<close>; \<open>int8_t\<close> and \<open>int16_t\<close> are \<open>8 word\<close> and
  \<open>16 word\<close> read through \<open>sint\<close>.  The \<open>int\<close> fields of \<open>struct tm\<close> are HOL
  integers; every conversion of such a field to \<open>uint8_t\<close> is an explicit
  \<open>word_of_int\<close>, which keeps the low eight bits exactly as the C conversion does.
\<close>

type_synonym uint8_t = "8 word"
type_synonym int8_t = "8 word"
type_synonym int16_t = "16 word"

abbreviation (input) DS3231_STAT_OSCILLATOR :: uint8_t where "DS3231_STAT_OSCILLATOR \<equiv> 0x80"
abbreviation (input) DS3231_STAT_32KHZ :: uint8_t where "DS3231_STAT_32KHZ \<equiv> 0x08"

abbreviation (input) DS3231_CTRL_ALARM_INTS :: uint8_t where "DS3231_CTRL_ALARM_INTS \<equiv> 0x04"

abbreviation (input) DS3231_ALARM_WDAY :: uint8_t where "DS3231_ALARM_WDAY \<equiv> 0x40"
abbreviation (input) DS3231_ALARM_NOTSET :: uint8_t where "DS3231_ALARM_NOTSET \<equiv> 0x80"

abbreviation (input) DS3231_ADDR_TIME :: uint8_t where "DS3231_ADDR_TIME \<equiv> 0x00"
abbreviation (input) DS3231_ADDR_ALARM1 :: uint8_t where "DS3231_ADDR_ALARM1 \<equiv> 0x07"
abbreviation (input) DS3231_ADDR_ALARM2 :: uint8_t where "DS3231_ADDR_ALARM2 \<equiv> 0x0b"
abbreviation (input) DS3231_ADDR_CONTROL :: uint8_t where "DS3231_ADDR_CONTROL \<equiv> 0x0e"
abbreviation (input) DS3231_ADDR_STATUS :: uint8_t where "DS3231_ADDR_STATUS \<equiv> 0x0f"
abbreviation (input) DS3231_ADDR_TEMP :: uint8_t where "DS3231_ADDR_TEMP \<equiv> 0x11"

abbreviation (input) DS3231_12HOUR_FLAG :: uint8_t where "DS3231_12HOUR_FLAG \<equiv> 0x40"
abbreviation (input) DS3231_12HOUR_MASK :: uint8_t where "DS3231_12HOUR_MASK \<equiv> 0x1f"
abbreviation (input) DS3231_PM_FLAG :: uint8_t where "DS3231_PM_FLAG \<equiv> 0x20"
abbreviation (input) DS3231_MONTH_MASK :: uint8_t where "DS3231_MONTH_MASK \<equiv> 0x1f"

text \<open>The anonymous enum of update modes; \<open>ds3231_set_flag\<close> receives it as a \<open>uint8_t\<close>.\<close>

abbreviation (input) DS3231_SET :: uint8_t where "DS3231_SET \<equiv> 0"
abbreviation (input) DS3231_CLEAR :: uint8_t where "DS3231_CLEAR \<equiv> 1"
abbreviation (input) DS3231_REPLACE :: uint8_t where "DS3231_REPLACE \<equiv> 2"

datatype ds3231_alarm_t =
  DS3231_ALARM_NONE | DS3231_ALARM_1 | DS3231_ALARM_2 | DS3231_ALARM_BOTH

text \<open>The enumerator's integer value, as seen when the enum is passed for a \<open>uint8_t\<close>.\<close>

fun alarm_val :: "ds3231_alarm_t \<Rightarrow> uint8_t" where
  "alarm_val DS3231_ALARM_NONE = 0"
| "alarm_val DS3231_ALARM_1 = 1"
| "alarm_val DS3231_ALARM_2 = 2"
| "alarm_val DS3231_ALARM_BOTH = 3"

datatype ds3231_alarm1_rate_t =
  DS3231_ALARM1_EVERY_SECOND
| DS3231_ALARM1_MATCH_SEC
| DS3231_ALARM1_MATCH_SECMIN
| DS3231_ALARM1_MATCH_SECMINHOUR
| DS3231_ALARM1_MATCH_SECMINHOURDAY
| DS3231_ALARM1_MATCH_SECMINHOURDATE

fun alarm1_rate_val :: "ds3231_alarm1_rate_t \<Rightarrow> nat" where
  "alarm1_rate_val DS3231_ALARM1_EVERY_SECOND = 0"
| "alarm1_rate_val DS3231_ALARM1_MATCH_SEC = 1"
| "alarm1_rate_val DS3231_ALARM1_MATCH_SECMIN = 2"
| "alarm1_rate_val DS3231_ALARM1_MATCH_SECMINHOUR = 3"
| "alarm1_rate_val DS3231_ALARM1_MATCH_SECMINHOURDAY = 4"
| "alarm1_rate_val DS3231_ALARM1_MATCH_SECMINHOURDATE = 5"

datatype ds3231_alarm2_rate_t =
  DS3231_ALARM2_EVERY_MIN
| DS3231_ALARM2_MATCH_MIN
| DS3231_ALARM2_MATCH_MINHOUR
| DS3231_ALARM2_MATCH_MINHOURDAY
| DS3231_ALARM2_MATCH_MINHOURDATE

fun alarm2_rate_val :: "ds3231_alarm2_rate_t \<Rightarrow> nat" where
  "alarm2_rate_val DS3231_ALARM2_EVERY_MIN = 0"
| "alarm2_rate_val DS3231_ALARM2_MATCH_MIN = 1"
| "alarm2_rate_val DS3231_ALARM2_MATCH_MINHOUR = 2"
| "alarm2_rate_val DS3231_ALARM2_MATCH_MINHOURDAY = 3"
| "alarm2_rate_val DS3231_ALARM2_MATCH_MINHOURDATE = 4"

datatype ds3231_sqwave_freq_t =
  DS3231_SQWAVE_1HZ | DS3231_SQWAVE_1024HZ | DS3231_SQWAVE_4096HZ | DS3231_SQWAVE_8192HZ

fun sqwave_val :: "ds3231_sqwave_freq_t \<Rightarrow> uint8_t" where
  "sqwave_val DS3231_SQWAVE_1HZ = 0x00"
| "sqwave_val DS3231_SQWAVE_1024HZ = 0x08"
| "sqwave_val DS3231_SQWAVE_4096HZ = 0x10"
| "sqwave_val DS3231_SQWAVE_8192HZ = 0x18"

text \<open>\<open>struct tm\<close> of \<open>time.h\<close>, with the nine members the C standard names.\<close>

record tm =
  tm_sec :: int
  tm_min :: int
  tm_hour :: int
  tm_mday :: int
  tm_mon :: int
  tm_year :: int
  tm_wday :: int
  tm_yday :: int
  tm_isdst :: int

section \<open>The bus transport (hal/hal.h)\<close>

text \<open>
  The driver reaches the chip only through \<open>hal_i2c_read_reg\<close> and
  \<open>hal_i2c_write_reg\<close>, declared in \<open>hal/hal.h\<close> and bound at link time.  The
  driver functions therefore take the transport as a parameter: a pair of
  functions over a transport state \<open>'s\<close>.  (\<open>hal/hal_nrf5.c\<close> is one binding
  of the interface, on top of the nRF5 SDK's TWI driver.)

  \<^item> \<open>hal_i2c_write_reg hal dev reg out_data s\<close> is the call with
    \<open>out_size = length out_data\<close>; it yields the returned \<open>bool\<close> and the new state.
  \<^item> \<open>hal_i2c_read_reg hal dev reg in_size s\<close> yields \<open>Some bytes\<close> when the call
    returns \<open>true\<close> (the bytes stored into \<open>in_data\<close>) and \<open>None\<close> when it
    returns \<open>false\<close>, in which case the caller's buffer holds whatever it held.
\<close>

record i2c_dev_t =
  dev_port :: uint8_t
  dev_scl_io_num :: uint8_t
  dev_sda_io_num :: uint8_t
  dev_addr :: uint8_t

record 's hal =
  hal_i2c_read_reg :: "i2c_dev_t \<Rightarrow> uint8_t \<Rightarrow> nat \<Rightarrow> 's \<Rightarrow> uint8_t list option \<times> 's"
  hal_i2c_write_reg :: "i2c_dev_t \<Rightarrow> uint8_t \<Rightarrow> uint8_t list \<Rightarrow> 's \<Rightarrow> bool \<times> 's"

subsection \<open>A register-file device with scheduled faults\<close>

text \<open>
  A concrete transport on which the driver can be run: the chip is its register
  file, every transfer is appended to a trace, and \<open>faults\<close> schedules the outcome
  of the coming transfers (head \<open>True\<close>: the next transfer fails and moves no data).

  The value returned by the write is the one of \<open>hal/hal_nrf5.c\<close>:
  \<open>if (err_code == NRF_SUCCESS) return false; return true;\<close>, that is
  \<open>false\<close> when the transfer went through.  A failed read is reported as
  \<open>None\<close>, which the interface allows; the read of \<open>hal/hal_nrf5.c\<close> returns
  \<open>true\<close> whatever the transfer did.
\<close>

datatype xfer = I2C_Read uint8_t nat | I2C_Write uint8_t "uint8_t list"

record sim_bus =
  regs :: "uint8_t \<Rightarrow> uint8_t"
  faults :: "bool list"
  trace :: "xfer list"

definition next_fails :: "sim_bus \<Rightarrow> bool" where
  "next_fails s = (case faults s of [] \<Rightarrow> False | f # _ \<Rightarrow> f)"

definition sim_read_reg :: "i2c_dev_t \<Rightarrow> uint8_t \<Rightarrow> nat \<Rightarrow> sim_bus \<Rightarrow> uint8_t list option \<times> sim_bus" where
  "sim_read_reg dev reg in_size s =
     (let s' = s\<lparr>faults := tl (faults s), trace := trace s @ [I2C_Read reg in_size]\<rparr>
      in if next_fails s then (None, s')
         else (Some (map (\<lambda>k. regs s (reg + of_nat k)) [0..<in_size]), s'))"

definition sim_write_reg :: "i2c_dev_t \<Rightarrow> uint8_t \<Rightarrow> uint8_t list \<Rightarrow> sim_bus \<Rightarrow> bool \<times> sim_bus" where
  "sim_write_reg dev reg out_data s =
     (let s' = s\<lparr>faults := tl (faults s), trace := trace s @ [I2C_Write reg out_data]\<rparr>
      in if next_fails s then (True, s')
         else (False, s'\<lparr>regs := (\<lambda>a. if unat (a - reg) < length out_data
                                       then out_data ! unat (a - reg) else regs s a)\<rparr>))"

definition sim_hal :: "sim_bus hal" where
  "sim_hal = \<lparr>hal_i2c_read_reg = sim_read_reg, hal_i2c_write_reg = sim_write_reg\<rparr>"

definition ds3231_dev :: i2c_dev_t where
  "ds3231_dev = \<lparr>dev_port = 0, dev_scl_io_num = 0, dev_sda_io_num = 0, dev_addr = 0x68\<rparr>"

section \<open>The driver (ds3231.c)\<close>

subsection \<open>BCD conversion\<close>

definition bcd2dec :: "uint8_t \<Rightarrow> uint8_t" where
  "bcd2dec val = drop_bit 4 val * 10 + (val AND 0x0f)"

definition dec2bcd :: "uint8_t \<Rightarrow> uint8_t" where
  "dec2bcd val = push_bit 4 (val div 10) + val mod 10"

text \<open>The conversions as the specification words them, on unbounded integers.\<close>

definition decodeBCD :: "int \<Rightarrow> int" where
  "decodeBCD b = drop_bit 4 b * 10 + (b AND 0xF)"

definition encodeBCD :: "int \<Rightarrow> int" where
  "encodeBCD n = push_bit 4 (n div 10) OR (n mod 10)"

subsection \<open>Time\<close>

text \<open>The \<open>data[7]\<close> array that \<open>ds3231_set_time\<close> fills before the write.\<close>

definition set_time_data :: "tm \<Rightarrow> uint8_t list" where
  "set_time_data time =
     [dec2bcd (word_of_int (tm_sec time)),
      dec2bcd (word_of_int (tm_min time)),
      dec2bcd (word_of_int (tm_hour time)),
      dec2bcd (word_of_int (tm_wday time + 1)),
      dec2bcd (word_of_int (tm_mday time)),
      dec2bcd (word_of_int (tm_mon time + 1)),
      dec2bcd (word_of_int (tm_year time - 2000))]"

definition ds3231_set_time :: "'s hal \<Rightarrow> i2c_dev_t \<Rightarrow> tm \<Rightarrow> 's \<Rightarrow> bool \<times> 's" where
  "ds3231_set_time hal dev time s =
     hal_i2c_write_reg hal dev DS3231_ADDR_TIME (set_time_data time) s"

text \<open>
  The conversion of \<open>data[7]\<close> into the caller's \<open>struct tm\<close> in
  \<open>ds3231_get_time\<close>; \<open>tm_yday\<close> is not assigned.
\<close>

definition get_time_hour :: "uint8_t \<Rightarrow> int" where
  "get_time_hour d2 =
     (if d2 AND DS3231_12HOUR_FLAG \<noteq> 0
      then (let h = uint (bcd2dec (d2 AND DS3231_12HOUR_MASK)) - 1
            in if d2 AND DS3231_PM_FLAG \<noteq> 0 then h + 12 else h)
      else uint (bcd2dec d2))"

definition get_time_tm :: "uint8_t list \<Rightarrow> tm \<Rightarrow> tm" where
  "get_time_tm data time =
     time\<lparr>tm_sec := uint (bcd2dec (data ! 0)),
          tm_min := uint (bcd2dec (data ! 1)),
          tm_hour := get_time_hour (data ! 2),
          tm_wday := uint (bcd2dec (data ! 3)) - 1,
          tm_mday := uint (bcd2dec (data ! 4)),
          tm_mon := uint (bcd2dec (data ! 5 AND DS3231_MONTH_MASK)) - 1,
          tm_year := uint (bcd2dec (data ! 6)) + 2000,
          tm_isdst := 0\<rparr>"

text \<open>
  \<open>ds3231_get_time\<close> discards the result of the read.  \<open>data0\<close> is the
  indeterminate content of the local array \<open>data[7]\<close>, which is what gets decoded
  when the read stored nothing.
\<close>

definition ds3231_get_time :: "'s hal \<Rightarrow> i2c_dev_t \<Rightarrow> uint8_t list \<Rightarrow> tm \<Rightarrow> 's \<Rightarrow> (bool \<times> tm) \<times> 's" where
  "ds3231_get_time hal dev data0 time s =
     (case hal_i2c_read_reg hal dev DS3231_ADDR_TIME 7 s of
        (r, s') \<Rightarrow>
          (let data = (case r of Some d \<Rightarrow> d | None \<Rightarrow> data0)
           in ((True, get_time_tm data time), s')))"

subsection \<open>Alarms\<close>

text \<open>
  \<open>time1\<close> and \<open>time2\<close> are pointers that the header allows to be null
  (\<open>None\<close>) for an alarm that is not set.  Each byte is \<open>None\<close> when computing it
  dereferences a null pointer; the whole call is then undefined (\<open>None\<close>).
\<close>

definition alarm1_data :: "tm option \<Rightarrow> ds3231_alarm1_rate_t \<Rightarrow> uint8_t option list" where
  "alarm1_data time1 option1 =
     [if alarm1_rate_val option1 \<ge> alarm1_rate_val DS3231_ALARM1_MATCH_SEC
        then map_option (\<lambda>t. dec2bcd (word_of_int (tm_sec t))) time1
        else Some DS3231_ALARM_NOTSET,
      if alarm1_rate_val option1 \<ge> alarm1_rate_val DS3231_ALARM1_MATCH_SECMIN
        then map_option (\<lambda>t. dec2bcd (word_of_int (tm_min t))) time1
        else Some DS3231_ALARM_NOTSET,
      if alarm1_rate_val option1 \<ge> alarm1_rate_val DS3231_ALARM1_MATCH_SECMINHOUR
        then map_option (\<lambda>t. dec2bcd (word_of_int (tm_hour t))) time1
        else Some DS3231_ALARM_NOTSET,
      if option1 = DS3231_ALARM1_MATCH_SECMINHOURDAY
        then map_option (\<lambda>t. dec2bcd (word_of_int (tm_wday t + 1)) AND DS3231_ALARM_WDAY) time1
        else if option1 = DS3231_ALARM1_MATCH_SECMINHOURDATE
        then map_option (\<lambda>t. dec2bcd (word_of_int (tm_mday t))) time1
        else Some DS3231_ALARM_NOTSET]"

definition alarm2_data :: "tm option \<Rightarrow> ds3231_alarm2_rate_t \<Rightarrow> uint8_t option list" where
  "alarm2_data time2 option2 =
     [if alarm2_rate_val option2 \<ge> alarm2_rate_val DS3231_ALARM2_MATCH_MIN
        then map_option (\<lambda>t. dec2bcd (word_of_int (tm_min t))) time2
        else Some DS3231_ALARM_NOTSET,
      if alarm2_rate_val option2 \<ge> alarm2_rate_val DS3231_ALARM2_MATCH_MINHOUR
        then map_option (\<lambda>t. dec2bcd (word_of_int (tm_hour t))) time2
        else Some DS3231_ALARM_NOTSET,
      if option2 = DS3231_ALARM2_MATCH_MINHOURDAY
        then map_option (\<lambda>t. dec2bcd (word_of_int (tm_wday t + 1)) AND DS3231_ALARM_WDAY) time2
        else if option2 = DS3231_ALARM2_MATCH_MINHOURDATE
        then map_option (\<lambda>t. dec2bcd (word_of_int (tm_mday t))) time2
        else Some DS3231_ALARM_NOTSET]"

text \<open>
  The array \<open>data\<close> grows by \<open>data[i++] = ...\<close>; the list below is
  \<open>data[0..i)\<close> and its length is the \<open>i\<close> passed to the write.
\<close>

definition set_alarm_data ::
  "ds3231_alarm_t \<Rightarrow> tm option \<Rightarrow> ds3231_alarm1_rate_t \<Rightarrow> tm option \<Rightarrow> ds3231_alarm2_rate_t
     \<Rightarrow> uint8_t list option" where
  "set_alarm_data alarms time1 option1 time2 option2 =
     those ((if alarms \<noteq> DS3231_ALARM_2 then alarm1_data time1 option1 else [])
          @ (if alarms \<noteq> DS3231_ALARM_1 then alarm2_data time2 option2 else []))"

definition ds3231_set_alarm ::
  "'s hal \<Rightarrow> i2c_dev_t \<Rightarrow> ds3231_alarm_t \<Rightarrow> tm option \<Rightarrow> ds3231_alarm1_rate_t
     \<Rightarrow> tm option \<Rightarrow> ds3231_alarm2_rate_t \<Rightarrow> 's \<Rightarrow> (bool \<times> 's) option" where
  "ds3231_set_alarm hal dev alarms time1 option1 time2 option2 s =
     (case set_alarm_data alarms time1 option1 time2 option2 of
        None \<Rightarrow> None
      | Some data \<Rightarrow>
          Some (hal_i2c_write_reg hal dev
                  (if alarms = DS3231_ALARM_2 then DS3231_ADDR_ALARM2 else DS3231_ADDR_ALARM1)
                  data s))"

subsection \<open>Flags\<close>

text \<open>
  \<open>ds3231_get_flag\<close> stores into \<open>*flag\<close> only when the read succeeded:
  \<open>Some\<close> is the stored byte with result \<open>true\<close>, \<open>None\<close> is result \<open>false\<close>.
  The parameter \<open>mask\<close> is written \<open>msk\<close>.
\<close>

definition ds3231_get_flag :: "'s hal \<Rightarrow> i2c_dev_t \<Rightarrow> uint8_t \<Rightarrow> uint8_t \<Rightarrow> 's \<Rightarrow> uint8_t option \<times> 's" where
  "ds3231_get_flag hal dev addr msk s =
     (case hal_i2c_read_reg hal dev addr 1 s of
        (None, s') \<Rightarrow> (None, s')
      | (Some data, s') \<Rightarrow> (Some (data ! 0 AND msk), s'))"

text \<open>The byte that \<open>ds3231_set_flag\<close> computes in its local \<open>data\<close>.\<close>

definition set_flag_data :: "uint8_t \<Rightarrow> uint8_t \<Rightarrow> uint8_t \<Rightarrow> uint8_t" where
  "set_flag_data data bits mode =
     (if mode = DS3231_REPLACE then bits
      else if mode = DS3231_SET then data OR bits
      else data AND NOT bits)"

text \<open>
  The final call of \<open>ds3231_set_flag\<close> is \<open>hal_i2c_read_reg(dev, addr, &data, 1)\<close>:
  the computed byte sits in the buffer that this read fills, and is passed to no write.
\<close>

definition ds3231_set_flag :: "'s hal \<Rightarrow> i2c_dev_t \<Rightarrow> uint8_t \<Rightarrow> uint8_t \<Rightarrow> uint8_t \<Rightarrow> 's \<Rightarrow> bool \<times> 's" where
  "ds3231_set_flag hal dev addr bits mode s =
     (case hal_i2c_read_reg hal dev addr 1 s of
        (None, s') \<Rightarrow> (False, s')
      | (Some d, s') \<Rightarrow>
          (let data = set_flag_data (d ! 0) bits mode
           in (case hal_i2c_read_reg hal dev addr 1 s' of
                 (r, s'') \<Rightarrow> (r \<noteq> None, s''))))"

definition ds3231_get_oscillator_stop_flag :: "'s hal \<Rightarrow> i2c_dev_t \<Rightarrow> 's \<Rightarrow> (bool \<times> bool) \<times> 's" where
  "ds3231_get_oscillator_stop_flag hal dev s =
     (case ds3231_get_flag hal dev DS3231_ADDR_STATUS DS3231_STAT_OSCILLATOR s of
        (r, s') \<Rightarrow>
          (let f = (case r of Some v \<Rightarrow> v | None \<Rightarrow> 0)
           in ((True, f \<noteq> 0), s')))"

definition ds3231_clear_oscillator_stop_flag :: "'s hal \<Rightarrow> i2c_dev_t \<Rightarrow> 's \<Rightarrow> bool \<times> 's" where
  "ds3231_clear_oscillator_stop_flag hal dev s =
     ds3231_set_flag hal dev DS3231_ADDR_STATUS DS3231_STAT_OSCILLATOR DS3231_CLEAR s"

definition ds3231_clear_alarm_flags :: "'s hal \<Rightarrow> i2c_dev_t \<Rightarrow> ds3231_alarm_t \<Rightarrow> 's \<Rightarrow> bool \<times> 's" where
  "ds3231_clear_alarm_flags hal dev alarms s =
     ds3231_set_flag hal dev DS3231_ADDR_STATUS (alarm_val alarms) DS3231_CLEAR s"

definition ds3231_enable_alarm_ints :: "'s hal \<Rightarrow> i2c_dev_t \<Rightarrow> ds3231_alarm_t \<Rightarrow> 's \<Rightarrow> bool \<times> 's" where
  "ds3231_enable_alarm_ints hal dev alarms s =
     ds3231_set_flag hal dev DS3231_ADDR_CONTROL (DS3231_CTRL_ALARM_INTS OR alarm_val alarms) DS3231_SET s"

definition ds3231_disable_alarm_ints :: "'s hal \<Rightarrow> i2c_dev_t \<Rightarrow> ds3231_alarm_t \<Rightarrow> 's \<Rightarrow> bool \<times> 's" where
  "ds3231_disable_alarm_ints hal dev alarms s =
     ds3231_set_flag hal dev DS3231_ADDR_CONTROL (alarm_val alarms) DS3231_CLEAR s"

definition ds3231_enable_32khz :: "'s hal \<Rightarrow> i2c_dev_t \<Rightarrow> 's \<Rightarrow> bool \<times> 's" where
  "ds3231_enable_32khz hal dev s =
     ds3231_set_flag hal dev DS3231_ADDR_STATUS DS3231_STAT_32KHZ DS3231_SET s"

definition ds3231_disable_32khz :: "'s hal \<Rightarrow> i2c_dev_t \<Rightarrow> 's \<Rightarrow> bool \<times> 's" where
  "ds3231_disable_32khz hal dev s =
     ds3231_set_flag hal dev DS3231_ADDR_STATUS DS3231_STAT_32KHZ DS3231_CLEAR s"

definition ds3231_enable_squarewave :: "'s hal \<Rightarrow> i2c_dev_t \<Rightarrow> 's \<Rightarrow> bool \<times> 's" where
  "ds3231_enable_squarewave hal dev s =
     ds3231_set_flag hal dev DS3231_ADDR_CONTROL DS3231_CTRL_ALARM_INTS DS3231_CLEAR s"

definition ds3231_disable_squarewave :: "'s hal \<Rightarrow> i2c_dev_t \<Rightarrow> 's \<Rightarrow> bool \<times> 's" where
  "ds3231_disable_squarewave hal dev s =
     ds3231_set_flag hal dev DS3231_ADDR_CONTROL DS3231_CTRL_ALARM_INTS DS3231_SET s"

text \<open>The byte that \<open>ds3231_set_squarewave_freq\<close> hands to \<open>ds3231_set_flag\<close>.\<close>

definition squarewave_freq_flag :: "uint8_t \<Rightarrow> ds3231_sqwave_freq_t \<Rightarrow> uint8_t" where
  "squarewave_freq_flag flag freq =
     (flag AND NOT (sqwave_val DS3231_SQWAVE_8192HZ)) OR sqwave_val freq"

definition ds3231_set_squarewave_freq :: "'s hal \<Rightarrow> i2c_dev_t \<Rightarrow> ds3231_sqwave_freq_t \<Rightarrow> 's \<Rightarrow> bool \<times> 's" where
  "ds3231_set_squarewave_freq hal dev freq s =
     (case ds3231_get_flag hal dev DS3231_ADDR_CONTROL 0xff s of
        (r, s') \<Rightarrow>
          (let flag = (case r of Some v \<Rightarrow> v | None \<Rightarrow> 0)
           in (case ds3231_set_flag hal dev DS3231_ADDR_CONTROL
                       (squarewave_freq_flag flag freq) DS3231_REPLACE s' of
                 (_, s'') \<Rightarrow> (True, s''))))"

subsection \<open>Temperature\<close>

text \<open>
  \<open>(int16_t)(int8_t)data[0] << 2 | data[1] >> 6\<close>: both operands are promoted
  to the 32-bit \<open>int\<close>, and the result is stored into an \<open>int16_t\<close>.
\<close>

definition raw_temp :: "uint8_t \<Rightarrow> uint8_t \<Rightarrow> int16_t" where
  "raw_temp d0 d1 =
     ucast (push_bit 2 (scast d0 :: 32 word) OR ucast (drop_bit 6 d1))"

definition ds3231_get_raw_temp :: "'s hal \<Rightarrow> i2c_dev_t \<Rightarrow> 's \<Rightarrow> int16_t option \<times> 's" where
  "ds3231_get_raw_temp hal dev s =
     (case hal_i2c_read_reg hal dev DS3231_ADDR_TEMP 2 s of
        (Some data, s') \<Rightarrow> (Some (raw_temp (data ! 0) (data ! 1)), s')
      | (None, s') \<Rightarrow> (None, s'))"

text \<open>\<open>t_int >> 2\<close> on the promoted (sign-extended) value, stored into an \<open>int8_t\<close>.\<close>

definition temp_integer :: "int16_t \<Rightarrow> int8_t" where
  "temp_integer t_int = ucast (signed_drop_bit 2 (scast t_int :: 32 word))"

definition ds3231_get_temp_integer :: "'s hal \<Rightarrow> i2c_dev_t \<Rightarrow> 's \<Rightarrow> int8_t option \<times> 's" where
  "ds3231_get_temp_integer hal dev s =
     (case ds3231_get_raw_temp hal dev s of
        (res, s') \<Rightarrow> (map_option temp_integer res, s'))"

text \<open>
  \<open>t_int * 0.25\<close>: a 16-bit integer times a power of two is exact in binary
  floating point, so the product is the real number itself.
\<close>

definition temp_float :: "int16_t \<Rightarrow> real" where
  "temp_float t_int = real_of_int (sint t_int) * 0.25"

definition ds3231_get_temp_float :: "'s hal \<Rightarrow> i2c_dev_t \<Rightarrow> 's \<Rightarrow> real option \<times> 's" where
  "ds3231_get_temp_float hal dev s =
     (case ds3231_get_raw_temp hal dev s of
        (res, s') \<Rightarrow> (map_option temp_float res, s'))"

section \<open>Calendar validity and sample inputs\<close>

text \<open>
  A valid calendar time as the specification describes it: year 2000 to 2099,
  month 0 to 11, day of month from 1 to the length of that month, hour 0 to 23,
  minute and second 0 to 59, weekday 0 to 6.
\<close>

definition is_leap_year :: "int \<Rightarrow> bool" where
  "is_leap_year y = (y mod 4 = 0 \<and> (y mod 100 \<noteq> 0 \<or> y mod 400 = 0))"

definition days_in_month :: "int \<Rightarrow> int \<Rightarrow> int" where
  "days_in_month y m =
     (if m = 1 then (if is_leap_year y then 29 else 28)
      else if m = 3 \<or> m = 5 \<or> m = 8 \<or> m = 10 then 30 else 31)"

definition valid_tm :: "tm \<Rightarrow> bool" where
  "valid_tm t =
     (2000 \<le> tm_year t \<and> tm_year t \<le> 2099 \<and>
      0 \<le> tm_mon t \<and> tm_mon t \<le> 11 \<and>
      1 \<le> tm_mday t \<and> tm_mday t \<le> days_in_month (tm_year t) (tm_mon t) \<and>
      0 \<le> tm_hour t \<and> tm_hour t \<le> 23 \<and>
      0 \<le> tm_min t \<and> tm_min t \<le> 59 \<and>
      0 \<le> tm_sec t \<and> tm_sec t \<le> 59 \<and>
      0 \<le> tm_wday t \<and> tm_wday t \<le> 6)"

text \<open>The device after power-on: control \<open>0x1c\<close>, status \<open>0x88\<close>, nothing transferred yet.\<close>

definition sim_init :: sim_bus where
  "sim_init = \<lparr>regs = (\<lambda>a. 0)(DS3231_ADDR_CONTROL := 0x1c, DS3231_ADDR_STATUS := 0x88),
               faults = [], trace = []\<rparr>"

text \<open>Thursday 29 February 2024, 23:59:58.\<close>

definition tm_leap_day :: tm where
  "tm_leap_day = \<lparr>tm_sec = 58, tm_min = 59, tm_hour = 23, tm_mday = 29, tm_mon = 1,
     tm_year = 2024, tm_wday = 4, tm_yday = 59, tm_isdst = 1\<rparr>"

text \<open>Saturday 15 June 2024, 12:34:56.\<close>

definition tm_saturday :: tm where
  "tm_saturday = \<lparr>tm_sec = 56, tm_min = 34, tm_hour = 12, tm_mday = 15, tm_mon = 5,
     tm_year = 2024, tm_wday = 6, tm_yday = 166, tm_isdst = 0\<rparr>"

text \<open>A calendar time with second 60, month 12 and year 2100: none is representable.\<close>

definition tm_invalid :: tm where
  "tm_invalid = \<lparr>tm_sec = 60, tm_min = 0, tm_hour = 0, tm_mday = 1, tm_mon = 12,
     tm_year = 2100, tm_wday = 0, tm_yday = 0, tm_isdst = 0\<rparr>"

text \<open>The device after power-on, with the next three transfers failing.\<close>

definition sim_failing :: sim_bus where
  "sim_failing = sim_init\<lparr>faults := [True, True, True]\<rparr>"

text \<open>The device after power-on, with 25.00 degrees in the temperature registers.\<close>

definition sim_warm :: sim_bus where
  "sim_warm = sim_init\<lparr>regs := (regs sim_init)(0x11 := 0x19, 0x12 := 0x00)\<rparr>"

section \<open>Verification\<close>

subsection \<open>BCD\<close>

lemma bcd_roundtrip_table:
  "\<forall>n \<in> set [0..99]. uint (bcd2dec (dec2bcd (word_of_int n))) = n"
  by code_simp

lemma bcd_roundtrip:
  assumes "0 \<le> n" and "n \<le> 99"
  shows "uint (bcd2dec (dec2bcd (word_of_int n))) = n"
  using assms bcd_roundtrip_table by simp

lemma encodeBCD_table:
  "\<forall>n \<in> set [0..99]. uint (dec2bcd (word_of_int n)) = encodeBCD n"
  by code_simp

lemma decodeBCD_table:
  "\<forall>b \<in> set [0..255]. uint (bcd2dec (word_of_int b)) = decodeBCD b"
  by code_simp

lemma bcd2dec_decodeBCD: "uint (bcd2dec b) = decodeBCD (uint b)"
proof -
  have "uint b < 2 ^ 8" using uint_lt2p [of b] by simp
  then have "uint b \<in> set [0..255]" by simp
  then have "uint (bcd2dec (word_of_int (uint b))) = decodeBCD (uint b)"
    using decodeBCD_table by blast
  then show ?thesis by simp
qed

lemma dec2bcd_encodeBCD:
  assumes "0 \<le> n" and "n \<le> 99"
  shows "uint (dec2bcd (word_of_int n)) = encodeBCD n"
proof -
  from assms have "n \<in> set [0..99]" by simp
  then show ?thesis using encodeBCD_table by blast
qed

text \<open>
  Claim C8.  For every integer \<open>n\<close> from 0 to 99, decoding the BCD encoding of
  \<open>n\<close> gives \<open>n\<close> back: this holds of the driver's \<open>bcd2dec\<close> and
  \<open>dec2bcd\<close>, whose results on this range are those of the formulas
  \<open>decodeBCD b = (b >> 4) * 10 + (b & 0xF)\<close> and
  \<open>encodeBCD n = ((n / 10) << 4) | (n % 10)\<close>, and so it holds of the formulas.
\<close>

theorem bcd_decode_encode_id:
  assumes "0 \<le> n" and "n \<le> 99"
  shows "uint (bcd2dec (dec2bcd (word_of_int n))) = n
       \<and> uint (dec2bcd (word_of_int n)) = encodeBCD n
       \<and> decodeBCD (encodeBCD n) = n"
proof -
  have a: "uint (bcd2dec (dec2bcd (word_of_int n))) = n"
    by (rule bcd_roundtrip [OF assms])
  have b: "uint (dec2bcd (word_of_int n)) = encodeBCD n"
    by (rule dec2bcd_encodeBCD [OF assms])
  have "decodeBCD (encodeBCD n) = uint (bcd2dec (dec2bcd (word_of_int n)))"
    by (simp only: bcd2dec_decodeBCD b)
  with a b show ?thesis by simp
qed

theorem bcd_decode_encode_id_witness:
  "(0::int) \<le> 59 \<and> (59::int) \<le> 99
       \<and> uint (bcd2dec (dec2bcd (word_of_int 59))) = 59
       \<and> uint (dec2bcd (word_of_int 59)) = encodeBCD 59
       \<and> decodeBCD (encodeBCD 59) = 59"
  using bcd_decode_encode_id [of 59] by simp

subsection \<open>Time round trip\<close>

lemma days_in_month_le: "days_in_month y m \<le> 31"
  by (simp add: days_in_month_def)

lemma hour_table: "\<forall>h \<in> set [0..23]. get_time_hour (dec2bcd (word_of_int h)) = h"
  by code_simp

lemma month_table:
  "\<forall>m \<in> set [0..11]. uint (bcd2dec (dec2bcd (word_of_int (m + 1)) AND DS3231_MONTH_MASK)) - 1 = m"
  by code_simp

lemma hour_roundtrip:
  assumes "0 \<le> h" and "h \<le> 23"
  shows "get_time_hour (dec2bcd (word_of_int h)) = h"
proof -
  from assms have "h \<in> set [0..23]" by simp
  then show ?thesis using hour_table by blast
qed

lemma month_roundtrip:
  assumes "0 \<le> m" and "m \<le> 11"
  shows "uint (bcd2dec (dec2bcd (word_of_int (m + 1)) AND DS3231_MONTH_MASK)) - 1 = m"
proof -
  from assms have "m \<in> set [0..11]" by simp
  then show ?thesis using month_table by blast
qed

lemma get_time_tm_set_time_data:
  assumes "valid_tm t"
  shows "get_time_tm (set_time_data t) time =
         time\<lparr>tm_sec := tm_sec t, tm_min := tm_min t, tm_hour := tm_hour t,
              tm_wday := tm_wday t, tm_mday := tm_mday t, tm_mon := tm_mon t,
              tm_year := tm_year t, tm_isdst := 0\<rparr>"
proof -
  from assms have sec: "uint (bcd2dec (dec2bcd (word_of_int (tm_sec t)))) = tm_sec t"
    by (intro bcd_roundtrip) (simp_all add: valid_tm_def)
  from assms have mn: "uint (bcd2dec (dec2bcd (word_of_int (tm_min t)))) = tm_min t"
    by (intro bcd_roundtrip) (simp_all add: valid_tm_def)
  from assms have hr: "get_time_hour (dec2bcd (word_of_int (tm_hour t))) = tm_hour t"
    by (intro hour_roundtrip) (simp_all add: valid_tm_def)
  from assms have wd: "uint (bcd2dec (dec2bcd (word_of_int (tm_wday t + 1)))) = tm_wday t + 1"
    by (intro bcd_roundtrip) (simp_all add: valid_tm_def)
  from assms have "tm_mday t \<le> 31"
    using days_in_month_le [of "tm_year t" "tm_mon t"] by (simp add: valid_tm_def)
  with assms have md: "uint (bcd2dec (dec2bcd (word_of_int (tm_mday t)))) = tm_mday t"
    by (intro bcd_roundtrip) (simp_all add: valid_tm_def)
  from assms have mo:
    "uint (bcd2dec (dec2bcd (word_of_int (tm_mon t + 1)) AND DS3231_MONTH_MASK)) - 1 = tm_mon t"
    by (intro month_roundtrip) (simp_all add: valid_tm_def)
  from assms have yr: "uint (bcd2dec (dec2bcd (word_of_int (tm_year t - 2000)))) = tm_year t - 2000"
    by (intro bcd_roundtrip) (simp_all add: valid_tm_def)
  show ?thesis
    using sec mn hr wd md mo yr by (simp add: get_time_tm_def set_time_data_def)
qed

lemma sim_read_after_write:
  assumes "faults s = []" and "length d = n" and "n \<le> 256"
  shows "fst (sim_read_reg dev reg n (snd (sim_write_reg dev reg d s))) = Some d"
proof -
  have "map (\<lambda>k. if unat ((reg + word_of_nat k) - reg) < length d
                  then d ! unat ((reg + word_of_nat k) - reg)
                  else regs s (reg + word_of_nat k)) [0..<n] = d"
  proof (rule nth_equalityI)
    show "length (map (\<lambda>k. if unat ((reg + word_of_nat k) - reg) < length d
                  then d ! unat ((reg + word_of_nat k) - reg)
                  else regs s (reg + word_of_nat k)) [0..<n]) = length d"
      using assms(2) by simp
  next
    fix i
    assume "i < length (map (\<lambda>k. if unat ((reg + word_of_nat k) - reg) < length d
                  then d ! unat ((reg + word_of_nat k) - reg)
                  else regs s (reg + word_of_nat k)) [0..<n])"
    then have i: "i < n" by simp
    with assms(3) have "unat (word_of_nat i :: 8 word) = i"
      by (simp add: unat_of_nat)
    with i assms(2)
    show "map (\<lambda>k. if unat ((reg + word_of_nat k) - reg) < length d
                  then d ! unat ((reg + word_of_nat k) - reg)
                  else regs s (reg + word_of_nat k)) [0..<n] ! i = d ! i"
      by simp
  qed
  then show ?thesis using assms(1)
    by (simp add: sim_read_reg_def sim_write_reg_def next_fails_def Let_def)
qed

text \<open>
  Claim C2.  For every valid calendar time \<open>t\<close>, decoding the seven bytes
  that \<open>ds3231_set_time\<close> produces for \<open>t\<close> into any caller's structure
  \<open>time\<close> stores the second, minute, hour, weekday, day of month, month and year
  of \<open>t\<close> there and sets the DST flag to 0 (\<open>tm_yday\<close> is left as the
  caller had it).  On a device whose transfers succeed, \<open>ds3231_get_time\<close>
  after \<open>ds3231_set_time\<close> returns \<open>true\<close> and exactly that structure,
  whatever the local buffer held before the read.  Decoding into \<open>t\<close> itself
  therefore gives \<open>t\<close> with the DST flag 0.
\<close>

theorem get_time_set_time_roundtrip:
  assumes "valid_tm t"
  shows "get_time_tm (set_time_data t) time =
           time\<lparr>tm_sec := tm_sec t, tm_min := tm_min t, tm_hour := tm_hour t,
                tm_wday := tm_wday t, tm_mday := tm_mday t, tm_mon := tm_mon t,
                tm_year := tm_year t, tm_isdst := 0\<rparr>
       \<and> (faults s = [] \<longrightarrow>
            fst (ds3231_get_time sim_hal dev data0 time (snd (ds3231_set_time sim_hal dev t s)))
              = (True, time\<lparr>tm_sec := tm_sec t, tm_min := tm_min t, tm_hour := tm_hour t,
                           tm_wday := tm_wday t, tm_mday := tm_mday t, tm_mon := tm_mon t,
                           tm_year := tm_year t, tm_isdst := 0\<rparr>))
       \<and> get_time_tm (set_time_data t) t = t\<lparr>tm_isdst := 0\<rparr>"
proof -
  note a = get_time_tm_set_time_data [OF assms, of time]
  have len: "length (set_time_data t) = 7" by (simp add: set_time_data_def)
  have b: "fst (ds3231_get_time sim_hal dev data0 time (snd (ds3231_set_time sim_hal dev t s)))
              = (True, time\<lparr>tm_sec := tm_sec t, tm_min := tm_min t, tm_hour := tm_hour t,
                           tm_wday := tm_wday t, tm_mday := tm_mday t, tm_mon := tm_mon t,
                           tm_year := tm_year t, tm_isdst := 0\<rparr>)" if "faults s = []"
    using sim_read_after_write [OF that len, of dev 0] a
    by (simp add: ds3231_get_time_def ds3231_set_time_def sim_hal_def case_prod_beta)
  have c: "get_time_tm (set_time_data t) t = t\<lparr>tm_isdst := 0\<rparr>"
    by (simp add: get_time_tm_set_time_data [OF assms])
  from a b c show ?thesis by blast
qed

theorem get_time_set_time_roundtrip_witness:
  "valid_tm tm_leap_day
   \<and> faults sim_init = []
   \<and> set_time_data tm_leap_day = [0x58, 0x59, 0x23, 0x05, 0x29, 0x02, 0x24]
   \<and> get_time_tm (set_time_data tm_leap_day) tm_saturday =
        \<lparr>tm_sec = 58, tm_min = 59, tm_hour = 23, tm_mday = 29, tm_mon = 1,
         tm_year = 2024, tm_wday = 4, tm_yday = 166, tm_isdst = 0\<rparr>
   \<and> fst (ds3231_get_time sim_hal ds3231_dev [0, 0, 0, 0, 0, 0, 0] tm_saturday
             (snd (ds3231_set_time sim_hal ds3231_dev tm_leap_day sim_init)))
        = (True, \<lparr>tm_sec = 58, tm_min = 59, tm_hour = 23, tm_mday = 29, tm_mon = 1,
                  tm_year = 2024, tm_wday = 4, tm_yday = 166, tm_isdst = 0\<rparr>)
   \<and> get_time_tm (set_time_data tm_leap_day) tm_leap_day = tm_leap_day\<lparr>tm_isdst := 0\<rparr>"
proof -
  have v: "valid_tm tm_leap_day"
    by (simp add: valid_tm_def tm_leap_day_def days_in_month_def is_leap_year_def)
  have f: "faults sim_init = []" by (simp add: sim_init_def)
  have d: "set_time_data tm_leap_day = [0x58, 0x59, 0x23, 0x05, 0x29, 0x02, 0x24]"
    by (simp add: set_time_data_def tm_leap_day_def dec2bcd_def)
  have r: "tm_saturday\<lparr>tm_sec := tm_sec tm_leap_day, tm_min := tm_min tm_leap_day,
             tm_hour := tm_hour tm_leap_day, tm_wday := tm_wday tm_leap_day,
             tm_mday := tm_mday tm_leap_day, tm_mon := tm_mon tm_leap_day,
             tm_year := tm_year tm_leap_day, tm_isdst := 0\<rparr>
           = \<lparr>tm_sec = 58, tm_min = 59, tm_hour = 23, tm_mday = 29, tm_mon = 1,
              tm_year = 2024, tm_wday = 4, tm_yday = 166, tm_isdst = 0\<rparr>"
    by (simp add: tm_saturday_def tm_leap_day_def)
  show ?thesis
    using v f d
      get_time_set_time_roundtrip [OF v, of tm_saturday sim_init ds3231_dev "[0, 0, 0, 0, 0, 0, 0]"]
    unfolding r by blast
qed


subsection \<open>Flag updates\<close>

text \<open>
  On the register-file device a read changes no register, and \<open>ds3231_set_flag\<close>
  performs reads only: whatever the address, the bits and the mode, the registers
  after the call are the registers before it.
\<close>

lemma sim_read_reg_regs: "regs (snd (sim_read_reg dev reg n s)) = regs s"
  by (simp add: sim_read_reg_def Let_def)

lemma ds3231_set_flag_sim_regs:
  "regs (snd (ds3231_set_flag sim_hal dev addr bits mode s)) = regs s"
  by (simp add: ds3231_set_flag_def sim_hal_def sim_read_reg_def Let_def
           split: prod.splits option.splits)

text \<open>
  Claim C1.  The flag primitive is to read the register, transform the byte
  (\<open>data AND NOT mask\<close> for CLEAR) and write it back, so that the register then
  holds the transformed byte.  On the device after power-on the status register
  holds \<open>0x88\<close>; clearing the oscillator-stop flag computes \<open>0x08\<close>, reports
  success, transfers two reads and no write, and leaves \<open>0x88\<close> in the register.
\<close>

theorem clear_oscillator_stop_flag_no_write_back:
  "regs sim_init DS3231_ADDR_STATUS = 0x88
   \<and> set_flag_data 0x88 DS3231_STAT_OSCILLATOR DS3231_CLEAR = 0x08
   \<and> fst (ds3231_clear_oscillator_stop_flag sim_hal ds3231_dev sim_init) = True
   \<and> regs (snd (ds3231_clear_oscillator_stop_flag sim_hal ds3231_dev sim_init)) DS3231_ADDR_STATUS = 0x88
   \<and> trace (snd (ds3231_clear_oscillator_stop_flag sim_hal ds3231_dev sim_init))
        = [I2C_Read DS3231_ADDR_STATUS 1, I2C_Read DS3231_ADDR_STATUS 1]"
  by (simp add: ds3231_clear_oscillator_stop_flag_def ds3231_set_flag_def sim_hal_def
        sim_read_reg_def sim_init_def next_fails_def set_flag_data_def Let_def)

text \<open>
  Claim C6.  Setting the square-wave frequency \<open>f\<close> is to leave
  \<open>(c AND NOT 0x18) OR f\<close> in the control register that held \<open>c\<close>.  With
  \<open>c = 0x1c\<close> and the 1 Hz code \<open>0x00\<close> the driver computes \<open>0x04\<close>,
  reports success, transfers three reads and no write, and the control register
  still holds \<open>0x1c\<close>.
\<close>

theorem set_squarewave_freq_no_write_back:
  "regs sim_init DS3231_ADDR_CONTROL = 0x1c
   \<and> squarewave_freq_flag 0x1c DS3231_SQWAVE_1HZ = 0x04
   \<and> fst (ds3231_set_squarewave_freq sim_hal ds3231_dev DS3231_SQWAVE_1HZ sim_init) = True
   \<and> regs (snd (ds3231_set_squarewave_freq sim_hal ds3231_dev DS3231_SQWAVE_1HZ sim_init)) DS3231_ADDR_CONTROL = 0x1c
   \<and> trace (snd (ds3231_set_squarewave_freq sim_hal ds3231_dev DS3231_SQWAVE_1HZ sim_init))
        = [I2C_Read DS3231_ADDR_CONTROL 1, I2C_Read DS3231_ADDR_CONTROL 1, I2C_Read DS3231_ADDR_CONTROL 1]"
  by (simp add: ds3231_set_squarewave_freq_def ds3231_get_flag_def ds3231_set_flag_def sim_hal_def
        sim_read_reg_def sim_init_def next_fails_def squarewave_freq_flag_def Let_def)

subsection \<open>Transport failures\<close>

text \<open>
  Claim C4.  An operation whose transport read or write fails is to report failure.
  Whatever the transport does, \<open>ds3231_get_time\<close>,
  \<open>ds3231_get_oscillator_stop_flag\<close> and \<open>ds3231_set_squarewave_freq\<close> return
  \<open>true\<close>.  In particular, with every transfer failing, \<open>ds3231_get_time\<close> returns \<open>true\<close>,
  \<open>ds3231_get_oscillator_stop_flag\<close> returns \<open>true\<close> with the flag reported clear
  although the status register has it set, and \<open>ds3231_set_squarewave_freq\<close>
  returns \<open>true\<close>.
\<close>

theorem transport_failure_reported_as_success:
  "fst (fst (ds3231_get_time hal dev data0 time s)) = True
   \<and> fst (fst (ds3231_get_oscillator_stop_flag hal dev s)) = True
   \<and> fst (ds3231_set_squarewave_freq hal dev freq s) = True
   \<and> fst (sim_read_reg ds3231_dev DS3231_ADDR_TIME 7 sim_failing) = None
   \<and> fst (fst (ds3231_get_time sim_hal ds3231_dev [0, 0, 0, 0, 0, 0, 0] tm_leap_day sim_failing)) = True
   \<and> fst (ds3231_get_oscillator_stop_flag sim_hal ds3231_dev sim_failing) = (True, False)
   \<and> regs sim_failing DS3231_ADDR_STATUS AND DS3231_STAT_OSCILLATOR \<noteq> 0
   \<and> fst (ds3231_set_squarewave_freq sim_hal ds3231_dev DS3231_SQWAVE_4096HZ sim_failing) = True
   \<and> trace (snd (ds3231_set_squarewave_freq sim_hal ds3231_dev DS3231_SQWAVE_4096HZ sim_failing))
        = [I2C_Read DS3231_ADDR_CONTROL 1, I2C_Read DS3231_ADDR_CONTROL 1]"
  by (simp add: sim_failing_def sim_init_def sim_hal_def sim_read_reg_def next_fails_def Let_def
        ds3231_get_time_def ds3231_get_oscillator_stop_flag_def ds3231_get_flag_def
        ds3231_set_squarewave_freq_def ds3231_set_flag_def case_prod_beta)

subsection \<open>Setting the time\<close>

text \<open>
  Claim C5, as stated: a calendar time with a field out of range is rejected by
  \<open>ds3231_set_time\<close> before any transport call, so that no byte is written.
  For second 60, month 12 and year 2100 the driver issues the write of seven
  bytes, among them the non-BCD year byte \<open>0xA0\<close>, which the device then holds
  in its year register.
\<close>

theorem set_time_invalid_counterexample:
  "\<not> valid_tm tm_invalid
   \<and> trace (snd (ds3231_set_time sim_hal ds3231_dev tm_invalid sim_init))
        = [I2C_Write DS3231_ADDR_TIME [0x60, 0x00, 0x00, 0x01, 0x01, 0x13, 0xA0]]
   \<and> regs (snd (ds3231_set_time sim_hal ds3231_dev tm_invalid sim_init)) 0x06 = 0xA0"
  by (simp add: valid_tm_def tm_invalid_def ds3231_set_time_def set_time_data_def dec2bcd_def
        sim_hal_def sim_write_reg_def sim_init_def next_fails_def Let_def)

text \<open>
  Claim C5, amended.  \<open>ds3231_set_time\<close> checks nothing: for every calendar
  time and every transport it is exactly one transport write at the time register
  base address \<open>0x00\<close> of the seven bytes \<open>dec2bcd\<close> of the second, the minute,
  the hour, the weekday plus 1, the day of month, the month plus 1 and the year
  minus 2000, each truncated to eight bits, and its result is the result of that
  write.  On the register-file device the trace grows by that single write, and
  when the transfer goes through, registers \<open>0x00\<close> to \<open>0x06\<close> hold those bytes.
\<close>

theorem set_time_always_writes:
  "ds3231_set_time hal dev time s =
     hal_i2c_write_reg hal dev DS3231_ADDR_TIME
       [dec2bcd (word_of_int (tm_sec time)),
        dec2bcd (word_of_int (tm_min time)),
        dec2bcd (word_of_int (tm_hour time)),
        dec2bcd (word_of_int (tm_wday time + 1)),
        dec2bcd (word_of_int (tm_mday time)),
        dec2bcd (word_of_int (tm_mon time + 1)),
        dec2bcd (word_of_int (tm_year time - 2000))] s
   \<and> trace (snd (ds3231_set_time sim_hal dev time b)) =
        trace b @ [I2C_Write DS3231_ADDR_TIME
          [dec2bcd (word_of_int (tm_sec time)),
           dec2bcd (word_of_int (tm_min time)),
           dec2bcd (word_of_int (tm_hour time)),
           dec2bcd (word_of_int (tm_wday time + 1)),
           dec2bcd (word_of_int (tm_mday time)),
           dec2bcd (word_of_int (tm_mon time + 1)),
           dec2bcd (word_of_int (tm_year time - 2000))]]
   \<and> (\<not> next_fails b \<longrightarrow>
        map (regs (snd (ds3231_set_time sim_hal dev time b))) [0x00, 0x01, 0x02, 0x03, 0x04, 0x05, 0x06] =
          [dec2bcd (word_of_int (tm_sec time)),
           dec2bcd (word_of_int (tm_min time)),
           dec2bcd (word_of_int (tm_hour time)),
           dec2bcd (word_of_int (tm_wday time + 1)),
           dec2bcd (word_of_int (tm_mday time)),
           dec2bcd (word_of_int (tm_mon time + 1)),
           dec2bcd (word_of_int (tm_year time - 2000))])"
proof -
  have a: "ds3231_set_time hal dev time s =
     hal_i2c_write_reg hal dev DS3231_ADDR_TIME
       [dec2bcd (word_of_int (tm_sec time)),
        dec2bcd (word_of_int (tm_min time)),
        dec2bcd (word_of_int (tm_hour time)),
        dec2bcd (word_of_int (tm_wday time + 1)),
        dec2bcd (word_of_int (tm_mday time)),
        dec2bcd (word_of_int (tm_mon time + 1)),
        dec2bcd (word_of_int (tm_year time - 2000))] s"
    by (simp only: ds3231_set_time_def set_time_data_def)
  have b: "trace (snd (ds3231_set_time sim_hal dev time b)) =
        trace b @ [I2C_Write DS3231_ADDR_TIME
          [dec2bcd (word_of_int (tm_sec time)),
           dec2bcd (word_of_int (tm_min time)),
           dec2bcd (word_of_int (tm_hour time)),
           dec2bcd (word_of_int (tm_wday time + 1)),
           dec2bcd (word_of_int (tm_mday time)),
           dec2bcd (word_of_int (tm_mon time + 1)),
           dec2bcd (word_of_int (tm_year time - 2000))]]"
    by (simp add: ds3231_set_time_def set_time_data_def sim_hal_def sim_write_reg_def Let_def)
  have c: "map (regs (snd (ds3231_set_time sim_hal dev time b))) [0x00, 0x01, 0x02, 0x03, 0x04, 0x05, 0x06] =
          [dec2bcd (word_of_int (tm_sec time)),
           dec2bcd (word_of_int (tm_min time)),
           dec2bcd (word_of_int (tm_hour time)),
           dec2bcd (word_of_int (tm_wday time + 1)),
           dec2bcd (word_of_int (tm_mday time)),
           dec2bcd (word_of_int (tm_mon time + 1)),
           dec2bcd (word_of_int (tm_year time - 2000))]" if "\<not> next_fails b"
    using that
    by (simp add: ds3231_set_time_def set_time_data_def sim_hal_def sim_write_reg_def Let_def)
  from a b c show ?thesis by blast
qed

theorem set_time_always_writes_witness:
  "\<not> next_fails sim_init
   \<and> trace (snd (ds3231_set_time sim_hal ds3231_dev tm_invalid sim_init)) =
        [I2C_Write DS3231_ADDR_TIME [0x60, 0x00, 0x00, 0x01, 0x01, 0x13, 0xA0]]
   \<and> map (regs (snd (ds3231_set_time sim_hal ds3231_dev tm_invalid sim_init)))
         [0x00, 0x01, 0x02, 0x03, 0x04, 0x05, 0x06] = [0x60, 0x00, 0x00, 0x01, 0x01, 0x13, 0xA0]"
proof -
  have n: "\<not> next_fails sim_init" by (simp add: next_fails_def sim_init_def)
  have t: "trace sim_init = []" by (simp add: sim_init_def)
  have d: "[dec2bcd (word_of_int (tm_sec tm_invalid)),
            dec2bcd (word_of_int (tm_min tm_invalid)),
            dec2bcd (word_of_int (tm_hour tm_invalid)),
            dec2bcd (word_of_int (tm_wday tm_invalid + 1)),
            dec2bcd (word_of_int (tm_mday tm_invalid)),
            dec2bcd (word_of_int (tm_mon tm_invalid + 1)),
            dec2bcd (word_of_int (tm_year tm_invalid - 2000))]
           = [0x60, 0x00, 0x00, 0x01, 0x01, 0x13, 0xA0]"
    by (simp add: tm_invalid_def dec2bcd_def)
  show ?thesis
    using n set_time_always_writes [of sim_hal ds3231_dev tm_invalid sim_init sim_init]
    unfolding d t append_Nil by blast
qed

subsection \<open>Setting the alarms\<close>

text \<open>
  For every weekday from 0 to 6 the BCD of \<open>weekday + 1\<close> has bit \<open>0x40\<close>
  clear, so its conjunction with \<open>DS3231_ALARM_WDAY\<close> is zero.
\<close>

lemma alarm_wday_byte_table:
  "\<forall>w \<in> set [0..6]. dec2bcd (word_of_int (w + 1)) AND DS3231_ALARM_WDAY = 0"
  by code_simp

text \<open>
  Claim C3.  For alarm 1 with the rate that matches seconds, minutes, hours and
  day, four bytes are emitted and the fourth is to be the BCD weekday with the
  day-indicator bit \<open>0x40\<close> set.  For a Saturday (weekday 6, BCD \<open>0x07\<close>) the
  driver emits four bytes and the fourth is \<open>0x00\<close>, not \<open>0x47\<close>: the BCD
  byte is combined with \<open>0x40\<close> by AND.
\<close>

theorem set_alarm1_day_byte_untagged:
  "set_alarm_data DS3231_ALARM_1 (Some tm_saturday) DS3231_ALARM1_MATCH_SECMINHOURDAY
      None DS3231_ALARM2_EVERY_MIN = Some [0x56, 0x34, 0x12, 0x00]
   \<and> encodeBCD (tm_wday tm_saturday + 1) = 0x07
   \<and> map_option (trace \<circ> snd)
        (ds3231_set_alarm sim_hal ds3231_dev DS3231_ALARM_1 (Some tm_saturday)
           DS3231_ALARM1_MATCH_SECMINHOURDAY None DS3231_ALARM2_EVERY_MIN sim_init)
      = Some [I2C_Write DS3231_ADDR_ALARM1 [0x56, 0x34, 0x12, 0x00]]"
  by (simp add: set_alarm_data_def alarm1_data_def tm_saturday_def dec2bcd_def encodeBCD_def
        ds3231_set_alarm_def sim_hal_def sim_write_reg_def sim_init_def Let_def next_fails_def)

text \<open>
  Claim C9.  For alarm 2 with the rate that matches minutes only,
  \<open>ds3231_set_alarm\<close> is one transport write of exactly three bytes at the
  alarm 2 base address \<open>0x0B\<close>: the \<open>dec2bcd\<close> of the requested minute, which
  for a minute from 0 to 59 is its BCD encoding, then \<open>0x80\<close> twice.  The first
  alarm's time pointer and rate play no part and the pointer may be null.
\<close>

theorem set_alarm2_match_min:
  "ds3231_set_alarm hal dev DS3231_ALARM_2 time1 option1 (Some time2) DS3231_ALARM2_MATCH_MIN s
     = Some (hal_i2c_write_reg hal dev DS3231_ADDR_ALARM2
               [dec2bcd (word_of_int (tm_min time2)), DS3231_ALARM_NOTSET, DS3231_ALARM_NOTSET] s)
   \<and> (0 \<le> tm_min time2 \<and> tm_min time2 \<le> 59 \<longrightarrow>
        uint (dec2bcd (word_of_int (tm_min time2))) = encodeBCD (tm_min time2))
   \<and> map_option (trace \<circ> snd)
        (ds3231_set_alarm sim_hal dev DS3231_ALARM_2 time1 option1 (Some time2) DS3231_ALARM2_MATCH_MIN b)
       = Some (trace b @ [I2C_Write 0x0B [dec2bcd (word_of_int (tm_min time2)), 0x80, 0x80]])"
proof -
  have d: "set_alarm_data DS3231_ALARM_2 time1 option1 (Some time2) DS3231_ALARM2_MATCH_MIN
        = Some [dec2bcd (word_of_int (tm_min time2)), 0x80, 0x80]"
    by (simp add: set_alarm_data_def alarm2_data_def)
  have e: "0 \<le> tm_min time2 \<and> tm_min time2 \<le> 59 \<longrightarrow>
        uint (dec2bcd (word_of_int (tm_min time2))) = encodeBCD (tm_min time2)"
    using dec2bcd_encodeBCD [of "tm_min time2"] by simp
  show ?thesis using e
    by (simp add: ds3231_set_alarm_def d sim_hal_def sim_write_reg_def Let_def)
qed

theorem set_alarm2_match_min_witness:
  "(0 \<le> tm_min tm_saturday \<and> tm_min tm_saturday \<le> 59)
   \<and> uint (dec2bcd (word_of_int (tm_min tm_saturday))) = encodeBCD (tm_min tm_saturday)
   \<and> map_option (trace \<circ> snd)
        (ds3231_set_alarm sim_hal ds3231_dev DS3231_ALARM_2 None DS3231_ALARM1_EVERY_SECOND
           (Some tm_saturday) DS3231_ALARM2_MATCH_MIN sim_init)
       = Some [I2C_Write 0x0B [0x34, 0x80, 0x80]]"
proof -
  have m: "tm_min tm_saturday = 34" by (simp add: tm_saturday_def)
  have b: "dec2bcd 34 = 0x34" by (simp add: dec2bcd_def)
  have t: "trace sim_init = []" by (simp add: sim_init_def)
  show ?thesis
    using set_alarm2_match_min [of sim_hal ds3231_dev None DS3231_ALARM1_EVERY_SECOND tm_saturday sim_init sim_init]
    by (simp add: m b t sim_hal_def sim_write_reg_def Let_def)
qed

text \<open>
  Claim C10.  With the target \<open>DS3231_ALARM_NONE\<close> the call is not a no-op: it
  behaves exactly as with \<open>DS3231_ALARM_BOTH\<close>, and with both time pointers
  valid it writes the four bytes of alarm 1 followed by the three bytes of
  alarm 2, seven bytes in all, at the alarm 1 base address \<open>0x07\<close>.
\<close>

theorem set_alarm_none_is_both:
  "ds3231_set_alarm hal dev DS3231_ALARM_NONE time1 option1 time2 option2 s
     = ds3231_set_alarm hal dev DS3231_ALARM_BOTH time1 option1 time2 option2 s
   \<and> ds3231_set_alarm hal dev DS3231_ALARM_NONE (Some t1) option1 (Some t2) option2 s
     = Some (hal_i2c_write_reg hal dev DS3231_ADDR_ALARM1
               (map the (alarm1_data (Some t1) option1 @ alarm2_data (Some t2) option2)) s)
   \<and> length (map the (alarm1_data (Some t1) option1 @ alarm2_data (Some t2) option2)) = 7
   \<and> map_option (trace \<circ> snd)
        (ds3231_set_alarm sim_hal dev DS3231_ALARM_NONE (Some t1) option1 (Some t2) option2 b)
       = Some (trace b @ [I2C_Write 0x07
                 (map the (alarm1_data (Some t1) option1 @ alarm2_data (Some t2) option2))])"
proof -
  have a: "set_alarm_data DS3231_ALARM_NONE time1 option1 time2 option2
         = set_alarm_data DS3231_ALARM_BOTH time1 option1 time2 option2"
    by (simp add: set_alarm_data_def)
  have d: "set_alarm_data DS3231_ALARM_NONE (Some t1) option1 (Some t2) option2
        = Some (map the (alarm1_data (Some t1) option1 @ alarm2_data (Some t2) option2))"
    by (simp add: set_alarm_data_def alarm1_data_def alarm2_data_def)
  have l: "length (map the (alarm1_data (Some t1) option1 @ alarm2_data (Some t2) option2)) = 7"
    by (simp add: alarm1_data_def alarm2_data_def)
  show ?thesis using l
    by (simp add: ds3231_set_alarm_def a d sim_hal_def sim_write_reg_def Let_def del: map_append)
qed

subsection \<open>Temperature\<close>

lemma raw_temp_word_of_int:
  "raw_temp hi lo = word_of_int (push_bit 2 (sint hi) OR drop_bit 6 (uint lo))"
  unfolding raw_temp_def
  by (rule bit_word_eqI) (auto simp add: bit_simps)

lemma raw_or_eq_add:
  "push_bit 2 (a :: int) OR drop_bit 6 (uint (lo :: 8 word)) = 4 * a + uint lo div 64"
proof -
  have "push_bit 2 a + drop_bit 6 (uint lo) = push_bit 2 a OR drop_bit 6 (uint lo)"
  proof (rule disjunctive_add)
    fix n
    show "\<not> bit (push_bit 2 a) n \<or> \<not> bit (drop_bit 6 (uint lo)) n"
      by (auto simp add: bit_simps dest: bit_imp_le_length)
  qed
  then show ?thesis by (simp add: push_bit_eq_mult drop_bit_eq_div)
qed

lemma low_bits_range: "0 \<le> uint (lo :: 8 word) div 64 \<and> uint lo div 64 < 4"
proof -
  have "uint lo < 2 ^ 8" using uint_lt2p [of lo] by simp
  then have "uint lo div 64 < 4" by simp
  moreover have "0 \<le> uint lo div 64" by (simp add: pos_imp_zdiv_nonneg_iff)
  ultimately show ?thesis by simp
qed

lemma raw_value_range:
  "- 512 \<le> 4 * sint (hi :: 8 word) + uint (lo :: 8 word) div 64
   \<and> 4 * sint hi + uint lo div 64 < 512"
proof -
  have "- 128 \<le> sint hi" using sint_ge [of hi] by simp
  moreover have "sint hi < 128" using sint_lt [of hi] by simp
  ultimately show ?thesis using low_bits_range [of lo] by linarith
qed

lemma sint_raw_temp:
  "sint (raw_temp hi lo) = 4 * sint hi + uint lo div 64"
proof -
  have "sint (raw_temp hi lo) = signed_take_bit (LENGTH(16) - 1) (4 * sint hi + uint lo div 64)"
    by (simp only: raw_temp_word_of_int raw_or_eq_add sint_sbintrunc')
  also have "\<dots> = 4 * sint hi + uint lo div 64"
    using raw_value_range [of hi lo] by (intro signed_take_bit_int_eq_self) simp_all
  finally show ?thesis .
qed

lemma sint_temp_integer:
  assumes "- 512 \<le> sint t_int" and "sint t_int < 512"
  shows "sint (temp_integer t_int) = sint t_int div 4"
proof -
  have e: "(ucast :: 32 word \<Rightarrow> 8 word) = scast"
    by (rule down_cast_same) (simp add: is_down)
  have "temp_integer t_int = scast (signed_drop_bit 2 (scast t_int :: 32 word))"
    by (simp only: temp_integer_def e)
  also have "\<dots> = word_of_int (sint (signed_drop_bit 2 (scast t_int :: 32 word)))"
    by (simp only: scast_eq)
  also have "sint (signed_drop_bit 2 (scast t_int :: 32 word)) = drop_bit 2 (sint t_int)"
    by (simp add: sint_signed_drop_bit_eq sint_up_scast is_up)
  finally have "sint (temp_integer t_int) = signed_take_bit (LENGTH(8) - 1) (sint t_int div 4)"
    by (simp only: sint_sbintrunc' drop_bit_eq_div) simp
  also have "\<dots> = sint t_int div 4"
    using assms by (intro signed_take_bit_int_eq_self) simp_all
  finally show ?thesis .
qed

lemma sint_temp_integer_raw:
  "sint (temp_integer (raw_temp hi lo)) = sint (raw_temp hi lo) div 4
   \<and> sint (temp_integer (raw_temp hi lo)) = sint hi"
proof -
  have a: "sint (temp_integer (raw_temp hi lo)) = sint (raw_temp hi lo) div 4"
    using raw_value_range [of hi lo] by (intro sint_temp_integer) (simp_all add: sint_raw_temp)
  have "sint (raw_temp hi lo) div 4 = sint hi"
    using low_bits_range [of lo] by (simp add: sint_raw_temp)
  with a show ?thesis by simp
qed


text \<open>
  Claim C7.  The raw temperature of the register pair \<open>(hi, lo)\<close> is
  \<open>(signed hi << 2) | (lo >> 6)\<close>, a signed value of ten bits, and the
  integer temperature is the raw value shifted right by two; whenever the
  transport read of two bytes at \<open>0x11\<close> succeeds, the three getters return
  these values.  The pair \<open>(0x19, 0x00)\<close> gives raw 100, integer 25 and float
  25.0; the pair \<open>(0xFF, 0x00)\<close> gives integer -1.
\<close>

theorem temperature_decode:
  "sint (raw_temp hi lo) = push_bit 2 (sint hi) OR drop_bit 6 (uint lo)
   \<and> - 512 \<le> sint (raw_temp hi lo) \<and> sint (raw_temp hi lo) < 512
   \<and> sint (temp_integer (raw_temp hi lo)) = drop_bit 2 (sint (raw_temp hi lo))
   \<and> (hal_i2c_read_reg hal dev DS3231_ADDR_TEMP 2 s = (Some [hi, lo], s') \<longrightarrow>
        ds3231_get_raw_temp hal dev s = (Some (raw_temp hi lo), s')
      \<and> ds3231_get_temp_integer hal dev s = (Some (temp_integer (raw_temp hi lo)), s')
      \<and> ds3231_get_temp_float hal dev s = (Some (temp_float (raw_temp hi lo)), s'))
   \<and> raw_temp 0x19 0x00 = 100
   \<and> sint (temp_integer (raw_temp 0x19 0x00)) = 25
   \<and> temp_float (raw_temp 0x19 0x00) = 25
   \<and> sint (temp_integer (raw_temp 0xFF 0x00)) = - 1"
proof -
  have a: "sint (raw_temp hi lo) = push_bit 2 (sint hi) OR drop_bit 6 (uint lo)"
    by (simp only: sint_raw_temp raw_or_eq_add)
  have b: "- 512 \<le> sint (raw_temp hi lo) \<and> sint (raw_temp hi lo) < 512"
    using raw_value_range [of hi lo] by (simp only: sint_raw_temp)
  have c: "sint (temp_integer (raw_temp hi lo)) = drop_bit 2 (sint (raw_temp hi lo))"
    using sint_temp_integer_raw [of hi lo] by (simp add: drop_bit_eq_div)
  have d: "ds3231_get_raw_temp hal dev s = (Some (raw_temp hi lo), s')
      \<and> ds3231_get_temp_integer hal dev s = (Some (temp_integer (raw_temp hi lo)), s')
      \<and> ds3231_get_temp_float hal dev s = (Some (temp_float (raw_temp hi lo)), s')"
    if "hal_i2c_read_reg hal dev DS3231_ADDR_TEMP 2 s = (Some [hi, lo], s')"
    using that
    by (simp add: ds3231_get_raw_temp_def ds3231_get_temp_integer_def ds3231_get_temp_float_def)
  have r: "raw_temp 0x19 0x00 = 100" by (simp add: raw_temp_def)
  have i: "sint (temp_integer (raw_temp 0x19 0x00)) = 25"
    using sint_temp_integer_raw [of "0x19" "0x00"] by simp
  have f: "temp_float (raw_temp 0x19 0x00) = 25" by (simp add: r temp_float_def)
  have m: "sint (temp_integer (raw_temp 0xFF 0x00)) = - 1"
    using sint_temp_integer_raw [of "0xFF" "0x00"] by simp
  from a b c d r i f m show ?thesis by blast
qed

theorem temperature_decode_witness:
  "hal_i2c_read_reg sim_hal ds3231_dev DS3231_ADDR_TEMP 2 sim_warm
     = (Some [0x19, 0x00], snd (hal_i2c_read_reg sim_hal ds3231_dev DS3231_ADDR_TEMP 2 sim_warm))
   \<and> fst (ds3231_get_raw_temp sim_hal ds3231_dev sim_warm) = Some 100
   \<and> map_option sint (fst (ds3231_get_temp_integer sim_hal ds3231_dev sim_warm)) = Some 25
   \<and> fst (ds3231_get_temp_float sim_hal ds3231_dev sim_warm) = Some 25"
proof -
  have rd: "hal_i2c_read_reg sim_hal ds3231_dev DS3231_ADDR_TEMP 2 sim_warm
     = (Some [0x19, 0x00], snd (hal_i2c_read_reg sim_hal ds3231_dev DS3231_ADDR_TEMP 2 sim_warm))"
    by (simp add: sim_hal_def sim_read_reg_def sim_warm_def sim_init_def next_fails_def Let_def
          numeral_2_eq_2)
  show ?thesis
    using rd temperature_decode [of "0x19" "0x00" sim_hal ds3231_dev sim_warm
             "snd (hal_i2c_read_reg sim_hal ds3231_dev DS3231_ADDR_TEMP 2 sim_warm)"]
    by auto
qed


end
